theory Spec2Isabelle
  imports Main "HOL-Library.Sublist"
begin

section \<open>Python strings\<close>

text \<open>
  A Python \<open>str\<close> is modelled as a \<open>string\<close> (a list of 8-bit characters). The model
  covers ASCII text: the case mappings act on the letters A-Z and a-z only, and the
  whitespace characters are the ASCII ones for which \<open>str.isspace\<close> holds.
\<close>

definition isspace :: "char \<Rightarrow> bool" where
  "isspace c = (c \<in> set [CHR 0x20, CHR 0x09, CHR 0x0A, CHR 0x0B, CHR 0x0C, CHR 0x0D,
                            CHR 0x1C, CHR 0x1D, CHR 0x1E, CHR 0x1F])"

definition lower_char :: "char \<Rightarrow> char" where
  "lower_char c =
     (case map_of (zip ''ABCDEFGHIJKLMNOPQRSTUVWXYZ'' ''abcdefghijklmnopqrstuvwxyz'') c of
        Some d \<Rightarrow> d | None \<Rightarrow> c)"

definition upper_char :: "char \<Rightarrow> char" where
  "upper_char c =
     (case map_of (zip ''abcdefghijklmnopqrstuvwxyz'' ''ABCDEFGHIJKLMNOPQRSTUVWXYZ'') c of
        Some d \<Rightarrow> d | None \<Rightarrow> c)"

definition isalpha :: "char \<Rightarrow> bool" where
  "isalpha c = (c \<in> set ''abcdefghijklmnopqrstuvwxyzABCDEFGHIJKLMNOPQRSTUVWXYZ'')"

definition isalnum :: "char \<Rightarrow> bool" where
  "isalnum c = (isalpha c \<or> c \<in> set ''0123456789'')"

text \<open>\<open>s.lower()\<close> and \<open>s.upper()\<close>.\<close>

definition lower :: "string \<Rightarrow> string" where
  "lower s = map lower_char s"

definition upper :: "string \<Rightarrow> string" where
  "upper s = map upper_char s"

text \<open>\<open>s.startswith(p)\<close>.\<close>

fun startswith :: "string \<Rightarrow> string \<Rightarrow> bool" where
  "startswith s [] = True"
| "startswith [] (p # ps) = False"
| "startswith (c # cs) (p # ps) = (c = p \<and> startswith cs ps)"

text \<open>\<open>p in s\<close> for two strings: \<open>p\<close> occurs in \<open>s\<close> as a contiguous substring.\<close>

fun contains :: "string \<Rightarrow> string \<Rightarrow> bool" where
  "contains p [] = (p = [])"
| "contains p (c # cs) = (startswith (c # cs) p \<or> contains p cs)"

text \<open>\<open>s.replace(old, "")\<close>: the non-overlapping occurrences of \<open>old\<close>, found from the
  left, are deleted. (With an empty \<open>old\<close> Python returns \<open>s\<close>.)\<close>

fun replace_del :: "string \<Rightarrow> string \<Rightarrow> string" where
  "replace_del old [] = []"
| "replace_del old (c # cs) =
     (if old \<noteq> [] \<and> startswith (c # cs) old
      then replace_del old (drop (length old - 1) cs)
      else c # replace_del old cs)"

text \<open>\<open>s.split()\<close>: the maximal runs of non-whitespace characters.\<close>

fun split_acc :: "string \<Rightarrow> string \<Rightarrow> string list" where
  "split_acc cur [] = (if cur = [] then [] else [cur])"
| "split_acc cur (c # cs) =
     (if isspace c then (if cur = [] then split_acc [] cs else cur # split_acc [] cs)
      else split_acc (cur @ [c]) cs)"

definition split :: "string \<Rightarrow> string list" where
  "split s = split_acc [] s"

text \<open>\<open>s.strip()\<close>.\<close>

definition strip :: "string \<Rightarrow> string" where
  "strip s = rev (dropWhile isspace (rev (dropWhile isspace s)))"

text \<open>\<open>sep.join(xs)\<close>.\<close>

fun join :: "string \<Rightarrow> string list \<Rightarrow> string" where
  "join sep [] = []"
| "join sep [x] = x"
| "join sep (x # y # ys) = x @ sep @ join sep (y # ys)"

text \<open>\<open>xs.index(x)\<close>: the position of the first occurrence; \<open>None\<close> stands for the
  \<open>ValueError\<close> that Python raises when there is none.\<close>

fun index :: "'a list \<Rightarrow> 'a \<Rightarrow> nat option" where
  "index [] x = None"
| "index (y # ys) x = (if y = x then Some 0 else map_option Suc (index ys x))"

text \<open>\<open>s.title()\<close>: a letter that follows a letter is lower-cased, every other letter is
  upper-cased.\<close>

fun title_acc :: "bool \<Rightarrow> string \<Rightarrow> string" where
  "title_acc prev [] = []"
| "title_acc prev (c # cs) =
     (if isalpha c then (if prev then lower_char c else upper_char c) # title_acc True cs
      else c # title_acc False cs)"

definition title :: "string \<Rightarrow> string" where
  "title s = title_acc False s"

definition nl :: string where
  "nl = [CHR 0x0A]"

text \<open>Truthiness of a value that is \<open>None\<close> or a string.\<close>

fun truthy :: "string option \<Rightarrow> bool" where
  "truthy None = False"
| "truthy (Some s) = (s \<noteq> [])"

text \<open>\<open>a or b\<close> on such values.\<close>

definition py_or :: "string option \<Rightarrow> string option \<Rightarrow> string option" where
  "py_or a b = (if truthy a then a else b)"

section \<open>The environment: configuration and collaborators\<close>

text \<open>What \<open>generate_content\<close> does: it raises an exception with a message, or it returns a
  response, whose text is \<open>None\<close> when the response or its text is missing.\<close>

datatype gen_outcome = Raised string | Response "string option"

text \<open>\<open>wikipedia.summary\<close>: a summary, or one of the exceptions the code tells apart.\<close>

datatype wiki_outcome = Summary string | DisambiguationError | PageError | WikiError

text \<open>\<open>psutil.sensors_battery()\<close>: raises, returns \<open>None\<close>, or a battery with a percentage.\<close>

datatype battery_outcome = BatteryRaises | NoBattery | Battery string

text \<open>\<open>cv2.VideoCapture(0)\<close>: raises with a message, or gives a capture that is opened or not.\<close>

datatype capture_outcome = CaptureRaises string | Capture bool

text \<open>One round of the camera loop: \<open>cap.read()\<close> fails, or a frame is shown and the key
  read is \<open>q\<close> or not, or a call raises with a message.\<close>

datatype frame = ReadFailed | Shown bool | FrameRaises string

text \<open>
  The constants of \<open>config.py\<close> and the results of the calls into libraries, the operating
  system and the network. A call that may raise has a result that says so: \<open>None\<close>/\<open>False\<close>
  for the calls whose exception is only caught, the message where the code reads it.
\<close>

record env =
  CONFIG_API_KEY :: "string option"
  GEMINI_MODEL :: string
  DEFAULT_USER_NAME :: string
  DEFAULT_CITY :: string
  getenv_GEMINI_API_KEY :: "string option"
  genai_configure_raises :: "string \<Rightarrow> string option"
  GenerativeModel_raises :: "string \<Rightarrow> string option"
  generate_content :: "string \<Rightarrow> gen_outcome"
  random_draw :: nat
  strftime :: "string \<Rightarrow> string"
  requests_get :: "string \<Rightarrow> (nat \<times> string) option"
  quote_plus :: "string \<Rightarrow> string"
  webbrowser_open_ok :: "string \<Rightarrow> bool"
  wikipedia_summary :: "string \<Rightarrow> nat \<Rightarrow> wiki_outcome"
  pyjokes_get_joke :: "string option"
  psutil_percents :: "(string \<times> string \<times> string) option"
  sensors_battery :: battery_outcome
  screenshot_raises :: "string \<Rightarrow> string option"
  platform_system :: string
  Path_home :: "string option"
  path_join :: "string \<Rightarrow> string \<Rightarrow> string"
  path_exists :: "string \<Rightarrow> bool"
  VideoCapture :: capture_outcome
  camera_frames :: "nat \<Rightarrow> frame"
  Popen_ok :: "string list \<Rightarrow> bool"
  file_write_ok :: "string \<Rightarrow> bool"

section \<open>chatbot\_core.py: the chat backend adapter\<close>

record chatbot =
  model_type :: "string option"
  gemini_model :: "string option"
  api_key :: "string option"
  concise_mode :: bool

text \<open>\<open>EnhancedChatbot.__init__\<close>.\<close>

definition chatbot_init :: chatbot where
  "chatbot_init = \<lparr>model_type = None, gemini_model = None, api_key = None, concise_mode = True\<rparr>"

text \<open>The key that \<open>load_gemini_api\<close> stores in \<open>self.api_key\<close>.\<close>

definition resolve_api_key :: "env \<Rightarrow> string option \<Rightarrow> string option" where
  "resolve_api_key e arg =
     (if truthy arg then arg
      else py_or (py_or (getenv_GEMINI_API_KEY e) (CONFIG_API_KEY e)) None)"

text \<open>\<open>load_gemini_api\<close>: the returned flag and the chatbot after the call. The loaded
  model is represented by the name it was created with.\<close>

definition load_gemini_api :: "env \<Rightarrow> string option \<Rightarrow> chatbot \<Rightarrow> bool \<times> chatbot" where
  "load_gemini_api e arg cb =
     (let cb1 = cb\<lparr>api_key := resolve_api_key e arg\<rparr> in
      case api_key cb1 of
        None \<Rightarrow> (False, cb1)
      | Some k \<Rightarrow>
          if k = [] \<or> k = ''YOUR_API_KEY_HERE'' then (False, cb1)
          else (case genai_configure_raises e k of
                  Some m \<Rightarrow> (False, cb1)
                | None \<Rightarrow>
                    (case GenerativeModel_raises e (GEMINI_MODEL e) of
                       Some m \<Rightarrow> (False, cb1)
                     | None \<Rightarrow>
                         (True, cb1\<lparr>gemini_model := Some (GEMINI_MODEL e),
                                     model_type := Some ''gemini''\<rparr>))))"

definition is_model_loaded :: "chatbot \<Rightarrow> bool" where
  "is_model_loaded cb = (model_type cb = Some ''gemini'' \<and> gemini_model cb \<noteq> None)"

definition get_model_info :: "env \<Rightarrow> chatbot \<Rightarrow> string" where
  "get_model_info e cb =
     (if model_type cb = Some ''gemini''
      then ''Google '' @ GEMINI_MODEL e @ '' - Advanced AI Assistant (from config)''
      else ''No model loaded'')"

text \<open>The status strings start with a check mark or a cross, written here as the bytes of
  its UTF-8 encoding.\<close>

definition check_mark :: string where
  "check_mark = [CHR 0xE2, CHR 0x9C, CHR 0x85]"

definition cross_mark :: string where
  "cross_mark = [CHR 0xE2, CHR 0x9D, CHR 0x8C]"

definition get_api_status :: "env \<Rightarrow> string" where
  "get_api_status e =
     (if truthy (CONFIG_API_KEY e) \<and> CONFIG_API_KEY e \<noteq> Some ''YOUR_API_KEY_HERE''
      then check_mark @ '' API key configured in config.py''
      else if truthy (getenv_GEMINI_API_KEY e)
      then check_mark @ '' API key found in environment variables''
      else cross_mark @ '' No API key configured'')"

subsection \<open>generate\_gemini\_response\<close>

definition system_instruction :: string where
  "system_instruction =
     ''You are NOAH, a helpful AI assistant. Follow these rules strictly:'' @ nl @
     ''- Keep responses under 120 words'' @ nl @
     ''- Be direct and actionable'' @ nl @
     ''- Use bullet points for lists (max 3 bullets)'' @ nl @
     ''- Give numbered steps for procedures'' @ nl @
     ''- Avoid filler words and repetition'' @ nl @
     ''- Don't add unnecessary disclaimers'' @ nl @
     ''- If unclear, give most likely answer + 1 clarification''"

text \<open>A message of the history is a dictionary, here an association list.\<close>

type_synonym msg = "(string \<times> string) list"

definition msg_get :: "msg \<Rightarrow> string \<Rightarrow> string \<Rightarrow> string" where
  "msg_get m k d = (case map_of m k of None \<Rightarrow> d | Some v \<Rightarrow> v)"

text \<open>The line a message adds to \<open>recent_messages\<close>, if any.\<close>

definition recent_message :: "msg \<Rightarrow> string option" where
  "recent_message m =
     (let role = msg_get m ''role'' ''user'';
          content = strip (msg_get m ''content'' '''')
      in if content \<noteq> [] then
           (if role = ''user'' then Some (''User: '' @ content)
            else if role = ''assistant'' then Some (''NOAH: '' @ content)
            else None)
         else None)"

definition history_context :: "msg list option \<Rightarrow> string" where
  "history_context chat_history =
     (case chat_history of
        None \<Rightarrow> ''''
      | Some h \<Rightarrow>
          (let recent_messages = List.map_filter recent_message (drop (length h - 6) h)
           in if recent_messages \<noteq> []
              then ''Recent context:'' @ nl @ join nl recent_messages @ nl @ nl
              else ''''))"

definition style_modifier :: "chatbot \<Rightarrow> string" where
  "style_modifier cb =
     (if concise_mode cb
      then ''ULTRA-CONCISE MODE: Maximum 3 sentences. No elaboration unless critical.'' @ nl
      else '''')"

definition final_prompt :: "chatbot \<Rightarrow> string \<Rightarrow> msg list option \<Rightarrow> string" where
  "final_prompt cb message chat_history =
     system_instruction @ nl @ nl @
     style_modifier cb @
     history_context chat_history @
     ''Current question: '' @ message @ nl @ nl @
     ''Provide a concise, helpful response:''"

text \<open>The call of the model inside the \<open>try\<close>: without a model object the attribute
  access raises.\<close>

definition call_generate_content :: "env \<Rightarrow> chatbot \<Rightarrow> string \<Rightarrow> gen_outcome" where
  "call_generate_content e cb prompt =
     (case gemini_model cb of
        None \<Rightarrow>
          Raised ([CHR 0x27] @ ''NoneType' object has no attribute 'generate_content'' @ [CHR 0x27])
      | Some m \<Rightarrow> generate_content e prompt)"

text \<open>The cleaning of a response text (the \<open>if response and response.text\<close> branch).\<close>

definition clean_response :: "string \<Rightarrow> string" where
  "clean_response text =
     (let c0 = strip text;
          c1 = (if length c0 > 800 then take 800 c0 @ ''...'' else c0)
      in if startswith c1 ''NOAH:'' then strip (drop 5 c1) else c1)"

text \<open>The \<open>except\<close> block: the reply for an exception with message \<open>m\<close>.\<close>

definition error_reply :: "string \<Rightarrow> string" where
  "error_reply m =
     (let error_msg = upper m in
      if contains ''API_KEY'' error_msg \<or> contains ''AUTHENTICATION'' error_msg
      then ''API key error. Please check your Gemini API key in config.py.''
      else if contains ''QUOTA'' error_msg \<or> contains ''LIMIT'' error_msg
      then ''API quota exceeded. Please check your usage limits.''
      else if contains ''BLOCKED'' error_msg \<or> contains ''SAFETY'' error_msg
      then ''Sorry, I cannot respond to that request due to safety filters.''
      else if contains ''NETWORK'' error_msg \<or> contains ''CONNECTION'' error_msg
      then ''Network error. Please check your internet connection.''
      else ''I encountered an error. Please try again in a moment.'')"

definition generate_gemini_response ::
  "env \<Rightarrow> chatbot \<Rightarrow> string \<Rightarrow> msg list option \<Rightarrow> string" where
  "generate_gemini_response e cb message chat_history =
     (case call_generate_content e cb (final_prompt cb message chat_history) of
        Raised m \<Rightarrow> error_reply m
      | Response None \<Rightarrow>
          ''I'm having trouble generating a response right now. Please try again.''
      | Response (Some text) \<Rightarrow>
          if text \<noteq> [] then clean_response text
          else ''I'm having trouble generating a response right now. Please try again.'')"

definition get_response :: "env \<Rightarrow> chatbot \<Rightarrow> string \<Rightarrow> msg list option \<Rightarrow> string" where
  "get_response e cb message chat_history =
     (if model_type cb = Some ''gemini'' \<and> gemini_model cb \<noteq> None
      then generate_gemini_response e cb message chat_history
      else ''Please load Gemini model first by saying 'load ai model' or 'use gemini'.'')"

section \<open>combined\_noah.py: the assistant\<close>

text \<open>
  The fields of \<open>AdvancedNOAHWithAI\<close> that the command router reads or writes.
  \<open>microphone\<close> tells whether \<open>self.microphone\<close> is an object, \<open>user_data_name\<close> is
  \<open>self.user_data["name"]\<close>, \<open>noah_data_json\<close> is the name stored in the profile file
  (\<open>None\<close> while nothing was written), and \<open>files\<close> lists the reports written, each
  with its path and text.
\<close>

record noah =
  text_mode :: bool
  microphone :: bool
  is_listening :: bool
  user_name :: string
  user_data_name :: string
  noah_data_json :: "string option"
  chatbot :: chatbot
  ai_model_loaded :: bool
  files :: "(string \<times> string) list"

text \<open>\<open>random.choice(xs)\<close> on a non-empty list, with the draw taken from the environment.\<close>

definition random_choice :: "env \<Rightarrow> string list \<Rightarrow> string" where
  "random_choice e xs = xs ! (random_draw e mod length xs)"

text \<open>\<open>any(p in q for p in ps)\<close>.\<close>

definition any_in :: "string list \<Rightarrow> string \<Rightarrow> bool" where
  "any_in ps q = list_ex (\<lambda>p. contains p q) ps"

subsection \<open>Utility methods\<close>

definition save_user_data :: "env \<Rightarrow> noah \<Rightarrow> noah" where
  "save_user_data e s =
     (if file_write_ok e ''noah_data.json''
      then s\<lparr>noah_data_json := Some (user_data_name s)\<rparr>
      else s)"

text \<open>\<open>initialize_ai_model\<close>: the returned flag, the state and what was said.\<close>

definition initialize_ai_model :: "env \<Rightarrow> noah \<Rightarrow> bool \<times> noah \<times> string list" where
  "initialize_ai_model e s =
     (case load_gemini_api e None (chatbot s) of
        (success, cb) \<Rightarrow>
          if success
          then (True, s\<lparr>chatbot := cb, ai_model_loaded := True\<rparr>,
                [''Loading advanced Gemini AI model from configuration...'',
                 ''Gemini AI model loaded successfully from config! I'm now powered by Google's advanced AI.''])
          else (False, s\<lparr>chatbot := cb\<rparr>,
                [''Loading advanced Gemini AI model from configuration...'',
                 ''Failed to load Gemini AI model. Please check your API key in config.py file.'']))"

text \<open>\<open>smart_search\<close>. When \<open>webbrowser.open\<close> raises, the second method raises as well
  (its \<open>platform\<close> is the string parameter, which has no \<open>system\<close>), so \<open>success\<close>
  stays false.\<close>

definition search_url :: "env \<Rightarrow> string \<Rightarrow> string \<Rightarrow> string" where
  "search_url e query platform =
     (let encoded_query = quote_plus e query;
          search_urls =
            [(''google'', ''https://www.google.com/search?q='' @ encoded_query),
             (''youtube'', ''https://www.youtube.com/results?search_query='' @ encoded_query),
             (''amazon'', ''https://www.amazon.com/s?k='' @ encoded_query),
             (''github'', ''https://github.com/search?q='' @ encoded_query),
             (''wikipedia'', ''https://en.wikipedia.org/wiki/Special:Search?search='' @ encoded_query)]
      in case map_of search_urls platform of
           Some url \<Rightarrow> url
         | None \<Rightarrow> ''https://www.google.com/search?q='' @ encoded_query)"

definition smart_search :: "env \<Rightarrow> string \<Rightarrow> string \<Rightarrow> string" where
  "smart_search e query platform =
     (if webbrowser_open_ok e (search_url e query platform)
      then ''Opening '' @ platform @ '' and searching for '' @ query
      else ''Could not open '' @ platform @ ''. Please check your default browser settings.'')"

definition get_free_weather :: "env \<Rightarrow> string \<Rightarrow> string" where
  "get_free_weather e city =
     (case requests_get e (''http://wttr.in/'' @ city @ ''?format=3'') of
        None \<Rightarrow> ''Could not get weather information''
      | Some (status_code, text) \<Rightarrow>
          if status_code = 200 then strip text
          else ''Weather information not available'')"

definition search_wikipedia :: "env \<Rightarrow> string \<Rightarrow> string" where
  "search_wikipedia e query =
     (case wikipedia_summary e query 3 of
        Summary result \<Rightarrow> result
      | DisambiguationError \<Rightarrow>
          ''Multiple results found for '' @ query @ ''. Please be more specific.''
      | PageError \<Rightarrow> ''No Wikipedia page found for '' @ query
      | WikiError \<Rightarrow> ''Could not access Wikipedia at this time'')"

definition jokes :: "string list" where
  "jokes =
     [''Why don't scientists trust atoms? Because they make up everything!'',
      ''I told my wife she was drawing her eyebrows too high. She seemed surprised.'',
      ''Why don't eggs tell jokes? They'd crack each other up!'',
      ''I'm reading a book about anti-gravity. It's impossible to put down!'',
      ''Why did the scarecrow win an award? He was outstanding in his field!'',
      ''What do you call a bear with no teeth? A gummy bear!'',
      ''Why don't programmers like nature? It has too many bugs!'']"

definition tell_joke :: "env \<Rightarrow> string" where
  "tell_joke e =
     (case pyjokes_get_joke e of
        Some joke \<Rightarrow> joke
      | None \<Rightarrow> random_choice e jokes)"

definition get_system_info :: "env \<Rightarrow> string" where
  "get_system_info e =
     (case psutil_percents e of
        None \<Rightarrow> ''Could not retrieve system information''
      | Some (cpu_percent, memory_percent, disk_percent) \<Rightarrow>
          (let info = ''System Status: CPU usage is '' @ cpu_percent @
                      ''%, Memory usage is '' @ memory_percent @
                      ''%, Disk usage is '' @ disk_percent @ ''%''
           in case sensors_battery e of
                Battery percent \<Rightarrow> info @ '', Battery is at '' @ percent @ ''%''
              | NoBattery \<Rightarrow> info
              | BatteryRaises \<Rightarrow> info))"

text \<open>\<open>take_screenshot\<close>. The name reported is the last component of the path, which is
  \<open>filename\<close> in every case.\<close>

definition take_screenshot :: "env \<Rightarrow> string" where
  "take_screenshot e =
     (let timestamp = strftime e ''%Y%m%d_%H%M%S'';
          filename = ''screenshot_'' @ timestamp @ ''.png'';
          filepath =
            (if platform_system e = ''Windows'' then
               (case Path_home e of
                  None \<Rightarrow> filename
                | Some home \<Rightarrow>
                    (let pictures_path = path_join e home ''Pictures''
                     in if path_exists e pictures_path
                        then path_join e pictures_path filename else filename))
             else filename)
      in case screenshot_raises e filepath of
           Some m \<Rightarrow> ''Could not take screenshot: '' @ m
         | None \<Rightarrow> ''Screenshot saved as '' @ filename)"

text \<open>The \<open>while True\<close> loop of \<open>open_camera\<close>, from round \<open>n\<close> on: \<open>Some None\<close> when the
  loop is left, \<open>Some (Some m)\<close> when a call raises with message \<open>m\<close>, and no result when
  the loop never ends.\<close>

partial_function (option) camera_loop :: "(nat \<Rightarrow> frame) \<Rightarrow> nat \<Rightarrow> string option option" where
  "camera_loop frames n =
     (case frames n of
        ReadFailed \<Rightarrow> Some None
      | FrameRaises m \<Rightarrow> Some (Some m)
      | Shown q \<Rightarrow> if q then Some None else camera_loop frames (Suc n))"

declare camera_loop.simps [code]

definition open_camera :: "env \<Rightarrow> string option" where
  "open_camera e =
     (case VideoCapture e of
        CaptureRaises m \<Rightarrow> Some (''Could not open camera: '' @ m)
      | Capture opened \<Rightarrow>
          if \<not> opened then Some ''Could not access camera''
          else (case camera_loop (camera_frames e) 0 of
                  None \<Rightarrow> None
                | Some (Some m) \<Rightarrow> Some (''Could not open camera: '' @ m)
                | Some None \<Rightarrow> Some ''Camera closed''))"

text \<open>\<open>open_application\<close>: what it says.\<close>

definition open_application :: "env \<Rightarrow> string \<Rightarrow> string list" where
  "open_application e app_name =
     (if platform_system e = ''Windows'' then
        (case map_of [(''notepad'', ''notepad.exe''), (''calc'', ''calc.exe''),
                      (''browser'', ''chrome.exe'')] app_name of
           Some exe \<Rightarrow>
             if Popen_ok e [exe] then [''Opening '' @ app_name]
             else [''Could not open '' @ app_name]
         | None \<Rightarrow>
             if app_name = ''browser'' then
               (if webbrowser_open_ok e ''https://www.google.com''
                then [''Opening default browser'']
                else [''Could not open '' @ app_name])
             else [''I don't know how to open '' @ app_name])
      else if app_name = ''browser'' then
        (if webbrowser_open_ok e ''https://www.google.com''
         then [''Opening default browser'']
         else [''Could not open '' @ app_name])
      else [''Application opening is limited on this platform''])"

text \<open>\<open>save_and_open_notepad\<close>: the path of the report, or \<open>None\<close> when writing it
  failed, and the state with the report added. Opening the editor has no effect on
  either.\<close>

definition keep_in_topic :: "char \<Rightarrow> bool" where
  "keep_in_topic c = (isalnum c \<or> c = CHR ''_'' \<or> isspace c \<or> c = CHR ''-'')"

text \<open>\<open>re.sub(r'[-\s]+', '_', s)\<close>; the flag tells whether the previous character was
  replaced.\<close>

fun sub_runs :: "bool \<Rightarrow> string \<Rightarrow> string" where
  "sub_runs in_run [] = []"
| "sub_runs in_run (c # cs) =
     (if c = CHR ''-'' \<or> isspace c
      then (if in_run then sub_runs True cs else CHR ''_'' # sub_runs True cs)
      else c # sub_runs False cs)"

definition safe_topic :: "string \<Rightarrow> string" where
  "safe_topic topic = take 30 (sub_runs False (strip (filter keep_in_topic topic)))"

definition rule_line :: string where
  "rule_line = replicate 63 (CHR ''='')"

definition full_content :: "env \<Rightarrow> noah \<Rightarrow> string \<Rightarrow> string \<Rightarrow> string" where
  "full_content e s topic content =
     join nl
       [rule_line,
        ''NOAH AI Assistant - Advanced Information Report (Powered by Google Gemini)'',
        rule_line,
        ''Topic: '' @ topic,
        ''Generated on: '' @ strftime e ''%Y-%m-%d %H:%M:%S'',
        ''AI Model: '' @ get_model_info e (chatbot s),
        ''Configuration: Loaded from config.py'',
        rule_line,
        [],
        content,
        [],
        rule_line,
        ''Generated by NOAH AI Assistant - Powered by Google Gemini'',
        ''Configuration loaded from config.py'',
        ''For more information, say '' @ [CHR 0x22] @ ''tell me about [any topic]'' @ [CHR 0x22],
        rule_line]"

definition report_path :: "env \<Rightarrow> string \<Rightarrow> string" where
  "report_path e filename =
     (case Path_home e of
        None \<Rightarrow> filename
      | Some home \<Rightarrow>
          if platform_system e = ''Windows'' then
            (let documents_path = path_join e home ''Documents''
             in if path_exists e documents_path
                then path_join e documents_path filename else filename)
          else path_join e home filename)"

definition save_and_open_notepad ::
  "env \<Rightarrow> noah \<Rightarrow> string \<Rightarrow> string \<Rightarrow> string option \<times> noah" where
  "save_and_open_notepad e s topic content =
     (let timestamp = strftime e ''%Y%m%d_%H%M%S'';
          filename = ''NOAH_Gemini_Info_'' @ safe_topic topic @ ''_'' @ timestamp @ ''.txt'';
          filepath = report_path e filename
      in if file_write_ok e filepath
         then (Some filepath, s\<lparr>files := files s @ [(filepath, full_content e s topic content)]\<rparr>)
         else (None, s))"

subsection \<open>handle\_tell\_me\_about\<close>

text \<open>\<open>re.search(lit + '(.+)', query, re.IGNORECASE)\<close> for a lower-case literal \<open>lit\<close>:
  group 1 of the leftmost match, which runs to the end of the line.\<close>

fun re_search :: "string \<Rightarrow> string \<Rightarrow> string option" where
  "re_search lit [] = None"
| "re_search lit (c # cs) =
     (if lower (take (length lit) (c # cs)) = lit then
        (case drop (length lit) (c # cs) of
           [] \<Rightarrow> re_search lit cs
         | r # rs \<Rightarrow>
             if r = CHR 0x0A then re_search lit cs
             else Some (takeWhile (\<lambda>x. x \<noteq> CHR 0x0A) (r # rs)))
      else re_search lit cs)"

text \<open>The loop over the patterns: the topic of the first pattern that matches.\<close>

fun first_topic :: "string list \<Rightarrow> string \<Rightarrow> string option" where
  "first_topic [] query = None"
| "first_topic (pattern # patterns) query =
     (case re_search pattern query of
        Some g \<Rightarrow> Some (strip g)
      | None \<Rightarrow> first_topic patterns query)"

definition topic_patterns :: "string list" where
  "topic_patterns =
     [''tell me about '', ''what is '', ''explain '', ''describe '',
      ''information about '', ''write about '']"

text \<open>One round of the loop over the prompts: the section it appends, if any.\<close>

definition ai_section :: "env \<Rightarrow> chatbot \<Rightarrow> string \<Rightarrow> string \<Rightarrow> string option" where
  "ai_section e cb number prompt =
     (let response = get_response e cb prompt None
      in if response \<noteq> [] \<and> length (strip response) > 50
         then Some (''AI Analysis '' @ number @ '':'' @ nl @ strip response)
         else None)"

text \<open>The part of \<open>handle_tell_me_about\<close> after the model is loaded.\<close>

definition generate_information :: "env \<Rightarrow> noah \<Rightarrow> string \<Rightarrow> string \<times> noah \<times> string list" where
  "generate_information e s topic =
     (let ai_responses = List.map_filter (\<lambda>x. x)
            [ai_section e (chatbot s) ''1''
               (''Provide a comprehensive overview of '' @ topic @
                '', including key facts, importance, and applications.''),
             ai_section e (chatbot s) ''2''
               (''What are the main features and characteristics of '' @ topic @
                ''? Include examples and practical uses.'')];
          wiki_info =
            (case wikipedia_summary e topic 3 of
               Summary wiki_summary \<Rightarrow>
                 nl @ nl @ ''Supplementary Wikipedia Information:'' @ nl @ wiki_summary
             | DisambiguationError \<Rightarrow> []
             | PageError \<Rightarrow> []
             | WikiError \<Rightarrow> []);
          combined_info =
            (if ai_responses \<noteq> []
             then ''Advanced AI Generated Information about '' @ topic @ '':'' @ nl @ nl @
                  join (nl @ nl) ai_responses @ wiki_info
             else ''Topic: '' @ topic @ nl @ nl @
                  ''I apologize, but AI couldn't generate detailed information at this time.'' @
                  wiki_info)
      in case save_and_open_notepad e s topic combined_info of
           (filename, s1) \<Rightarrow>
             (if truthy filename
              then ''I've used advanced Gemini AI to generate detailed information about '' @
                   topic @ '' and saved it to your text editor.''
              else ''AI generated information about '' @ topic @
                   '', but couldn't save it to a file.'',
              s1,
              [''Let me use advanced AI to generate detailed information about '' @ topic @ ''...'']))"

text \<open>\<open>handle_tell_me_about\<close>: the returned reply, the state and what was said on the way.\<close>

definition handle_tell_me_about :: "env \<Rightarrow> noah \<Rightarrow> string \<Rightarrow> string \<times> noah \<times> string list" where
  "handle_tell_me_about e s query =
     (case first_topic topic_patterns query of
        None \<Rightarrow>
          (''I didn't catch what you want to know about. Please say 'tell me about' followed by a topic.'',
           s, [])
      | Some topic \<Rightarrow>
          if topic = [] then
            (''I didn't catch what you want to know about. Please say 'tell me about' followed by a topic.'',
             s, [])
          else if \<not> ai_model_loaded s then
            (case initialize_ai_model e s of
               (loaded, s1, says1) \<Rightarrow>
                 if \<not> loaded then
                   (case wikipedia_summary e topic 5 of
                      Summary wiki_info \<Rightarrow>
                        (case save_and_open_notepad e s1 topic
                                (''Wikipedia Information:'' @ nl @ nl @ wiki_info) of
                           (filename, s2) \<Rightarrow>
                             (''I couldn't load the AI model, but I found Wikipedia information about '' @
                              topic @ ''.'',
                              s2,
                              [''Let me load my advanced AI knowledge base first...''] @ says1 @
                              [''Using Wikipedia for information...'']))
                    | _ \<Rightarrow>
                        (''Sorry, I couldn't load the AI model or find Wikipedia information.'',
                         s1,
                         [''Let me load my advanced AI knowledge base first...''] @ says1 @
                         [''Using Wikipedia for information...'']))
                 else
                   (case generate_information e s1 topic of
                      (reply, s2, says2) \<Rightarrow>
                        (reply, s2,
                         [''Let me load my advanced AI knowledge base first...''] @ says1 @ says2)))
          else generate_information e s topic)"

subsection \<open>process\_command\<close>

text \<open>The conditions of the \<open>if\<close>/\<open>elif\<close> chain, in the order of the source.\<close>

definition tell_me_patterns :: "string list" where
  "tell_me_patterns =
     [''tell me about'', ''what is'', ''explain'', ''describe'',
      ''information about'', ''write about'', ''generate information about'']"

definition is_tell_me :: "string \<Rightarrow> bool" where
  "is_tell_me query = any_in tell_me_patterns (lower query)"

definition is_model_load :: "string \<Rightarrow> bool" where
  "is_model_load query =
     any_in [''load ai model'', ''initialize ai'', ''use gemini'', ''load gemini''] query"

definition is_config_status :: "string \<Rightarrow> bool" where
  "is_config_status query = (contains ''config status'' query \<or> contains ''api status'' query)"

definition is_text_mode :: "string \<Rightarrow> bool" where
  "is_text_mode query = (contains ''text mode'' query \<or> contains ''switch to text'' query)"

definition is_voice_mode :: "string \<Rightarrow> bool" where
  "is_voice_mode query = (contains ''voice mode'' query \<or> contains ''switch to voice'' query)"

definition is_greeting :: "string \<Rightarrow> bool" where
  "is_greeting query =
     any_in [''hello'', ''hi'', ''hey'', ''good morning'', ''good afternoon''] query"

definition is_time :: "string \<Rightarrow> bool" where
  "is_time query = contains ''time'' query"

definition is_date :: "string \<Rightarrow> bool" where
  "is_date query = (contains ''date'' query \<or> contains ''today'' query)"

definition is_weather :: "string \<Rightarrow> bool" where
  "is_weather query = contains ''weather'' query"

definition is_wikipedia :: "string \<Rightarrow> bool" where
  "is_wikipedia query = (contains ''wikipedia'' query \<or> contains ''search wikipedia'' query)"

definition is_joke :: "string \<Rightarrow> bool" where
  "is_joke query =
     (contains ''joke'' query \<or> contains ''funny'' query \<or> contains ''humor'' query)"

definition is_system :: "string \<Rightarrow> bool" where
  "is_system query =
     (contains ''system'' query \<or> contains ''status'' query \<or> contains ''performance'' query)"

definition is_screenshot :: "string \<Rightarrow> bool" where
  "is_screenshot query = (contains ''screenshot'' query \<or> contains ''screen capture'' query)"

definition is_camera :: "string \<Rightarrow> bool" where
  "is_camera query = (contains ''camera'' query \<or> contains ''video'' query)"

definition is_search :: "string \<Rightarrow> bool" where
  "is_search query = contains ''search'' query"

definition is_youtube :: "string \<Rightarrow> bool" where
  "is_youtube query = contains ''youtube'' query"

definition is_google :: "string \<Rightarrow> bool" where
  "is_google query = (contains ''google'' query \<and> contains ''search'' query)"

definition is_open :: "string \<Rightarrow> bool" where
  "is_open query = contains ''open'' query"

definition is_name :: "string \<Rightarrow> bool" where
  "is_name query = (contains ''my name is'' query \<or> contains ''call me'' query)"

definition is_help :: "string \<Rightarrow> bool" where
  "is_help query = (contains ''help'' query \<or> contains ''commands'' query)"

definition is_exit :: "string \<Rightarrow> bool" where
  "is_exit query = any_in [''exit'', ''quit'', ''goodbye'', ''bye'', ''stop''] query"

text \<open>The bodies of the branches.\<close>

definition greetings :: "noah \<Rightarrow> string list" where
  "greetings s =
     [''Hello '' @ user_name s @ ''! How can I help you today?'',
      ''Hi there! I'm NOAH, ready to assist you with intelligent responses.'',
      ''Greetings '' @ user_name s @ ''! What can I do for you today?'']"

text \<open>The city of the weather branch.\<close>

definition weather_city :: "env \<Rightarrow> string \<Rightarrow> string" where
  "weather_city e query =
     (let city = DEFAULT_CITY e;
          words = split query
      in if ''in'' \<in> set words then
           (case index words ''in'' of
              None \<Rightarrow> city
            | Some in_index \<Rightarrow>
                if in_index + 1 < length words
                then join '' '' (drop (in_index + 1) words)
                else city)
         else city)"

text \<open>The generic search branch: \<open>search_query\<close> and \<open>platform_detected\<close>.\<close>

definition search_arguments :: "string \<Rightarrow> string \<times> string" where
  "search_arguments query =
     (let search_query = strip (replace_del ''search'' query) in
      if contains ''youtube'' query \<or> contains ''video'' query then
        (strip (replace_del ''video'' (replace_del ''youtube'' search_query)), ''youtube'')
      else if contains ''amazon'' query \<or> contains ''buy'' query \<or> contains ''shop'' query then
        (strip (replace_del ''shop'' (replace_del ''buy'' (replace_del ''amazon'' search_query))),
         ''amazon'')
      else if contains ''github'' query \<or> contains ''code'' query then
        (strip (replace_del ''code'' (replace_del ''github'' search_query)), ''github'')
      else (search_query, ''google''))"

text \<open>The name branch: the state and what is said. \<open>None\<close> from \<open>index\<close> is the
  \<open>ValueError\<close> that the \<open>except\<close> of the branch catches.\<close>

definition set_user_name :: "env \<Rightarrow> noah \<Rightarrow> string \<Rightarrow> noah \<times> string list" where
  "set_user_name e s query =
     (let words = split query in
      case (if contains ''my name is'' query then index words ''is'' else index words ''me'') of
        None \<Rightarrow> (s, [''I didn't catch your name. Please try again.''])
      | Some i \<Rightarrow>
          (let name_index = i + 1;
               new_name = join '' '' (drop name_index words)
           in if new_name \<noteq> [] then
                (let s1 = s\<lparr>user_name := title new_name\<rparr>;
                     s2 = s1\<lparr>user_data_name := user_name s1\<rparr>;
                     s3 = save_user_data e s2
                 in (s3, [''Nice to meet you, '' @ user_name s3 @ ''!'']))
              else (s, [])))"

text \<open>The bullet and the magnifying glass of the help text, as the bytes of their UTF-8
  encodings.\<close>

definition bullet :: string where
  "bullet = [CHR 0xE2, CHR 0x80, CHR 0xA2]"

definition magnifier :: string where
  "magnifier = [CHR 0xF0, CHR 0x9F, CHR 0x94, CHR 0x8D]"

definition help_text :: "env \<Rightarrow> string" where
  "help_text e =
     join nl
     [''I can help you with many things! Here are some examples:'',
      [],
      ''AI Features (Powered by Google Gemini from config.py):'',
      bullet @ '' Say 'tell me about Python' for detailed AI-generated information'',
      bullet @ '' Ask any question for intelligent responses'',
      bullet @ '' Have natural conversations with advanced AI'',
      [],
      ''Configuration Commands:'',
      bullet @ '' Say 'config status' to check API key status'',
      bullet @ '' Say 'load ai model' to initialize Gemini'',
      [],
      magnifier @ '' WEB SEARCH FEATURES:'',
      bullet @ '' Say 'search machine learning' - Google search'',
      bullet @ '' Say 'youtube python tutorials' - YouTube search  '',
      bullet @ '' Say 'search python on github' - GitHub search'',
      bullet @ '' Say 'search laptop on amazon' - Amazon search'',
      bullet @ '' Say 'search einstein on wikipedia' - Wikipedia search'',
      [],
      ''System Features:'',
      bullet @ '' Ask for time, date, or weather updates (default city: '' @ DEFAULT_CITY e @ '')'',
      bullet @ '' Request screenshots or camera access'',
      bullet @ '' Get system performance information'',
      [],
      ''Other Commands:'',
      bullet @ '' Tell jokes and get entertainment'',
      bullet @ '' Say 'text mode' to switch input methods'',
      bullet @ '' Say 'exit' when you're done'',
      [],
      ''Note: All AI responses are powered by Google Gemini with settings from config.py!'']"

definition suggestions :: "string list" where
  "suggestions =
     [''I didn't understand that command. Say 'load ai model' to enable advanced AI responses!'',
      ''Sorry, I didn't catch that. Make sure your API key is set in config.py, then try 'load ai model'.'',
      ''I'm not sure what you mean. Try searching: 'youtube music videos' or 'search python tutorials'.'']"

text \<open>The last branch: general conversation.\<close>

definition conversation :: "env \<Rightarrow> noah \<Rightarrow> string \<Rightarrow> string" where
  "conversation e s query =
     (if ai_model_loaded s then
        (let response = get_response e (chatbot s) query None
         in if length response > 200
            then take 200 response @ ''... Would you like me to elaborate on any part?''
            else response)
      else random_choice e suggestions)"

text \<open>
  \<open>process_command\<close>: the state after the command and the texts passed to \<open>say\<close>, in
  order; no result when the camera loop never ends. Every \<open>return\<close> of the first rules
  ends the chain as the \<open>elif\<close>s do.
\<close>

definition process_command :: "env \<Rightarrow> noah \<Rightarrow> string \<Rightarrow> (noah \<times> string list) option" where
  "process_command e s query =
     (if query = [] then Some (s, [])
      else if is_tell_me query then
        (case handle_tell_me_about e s query of
           (response, s1, says) \<Rightarrow> Some (s1, says @ [response]))
      else if is_model_load query then
        (case initialize_ai_model e s of (loaded, s1, says) \<Rightarrow> Some (s1, says))
      else if is_config_status query then
        Some (s, [''Configuration status: '' @ get_api_status e @ ''. Model: '' @
                  get_model_info e (chatbot s)])
      else if is_text_mode query then
        Some (s\<lparr>text_mode := True\<rparr>, [''Switched to text input mode''])
      else if is_voice_mode query then
        (if microphone s
         then Some (s\<lparr>text_mode := False\<rparr>, [''Switched to voice input mode''])
         else Some (s, [''Voice mode is not available. Microphone not detected.'']))
      else if is_greeting query then
        Some (s, [random_choice e (greetings s)])
      else if is_time query then
        Some (s, [''The current time is '' @ strftime e ''%I:%M %p''])
      else if is_date query then
        Some (s, [''Today is '' @ strftime e ''%A, %B %d, %Y''])
      else if is_weather query then
        (let city = weather_city e query;
             weather = get_free_weather e city
         in Some (s, [''Weather in '' @ city @ '': '' @ weather]))
      else if is_wikipedia query then
        (let search_query = strip (replace_del ''search'' (replace_del ''wikipedia'' query))
         in if search_query \<noteq> [] then
              (let result = smart_search e search_query ''wikipedia'';
                   wiki_result = search_wikipedia e search_query
               in if length wiki_result < 200
                  then Some (s, [result, wiki_result])
                  else Some (s, [result]))
            else Some (s, [''What would you like me to search on Wikipedia?'']))
      else if is_joke query then
        Some (s, [tell_joke e])
      else if is_system query then
        Some (s, [get_system_info e])
      else if is_screenshot query then
        Some (s, [take_screenshot e])
      else if is_camera query then
        (case open_camera e of
           None \<Rightarrow> None
         | Some result \<Rightarrow> Some (s, [''Opening camera. Press Q to close.'', result]))
      else if is_search query then
        (case search_arguments query of
           (search_query, platform_detected) \<Rightarrow>
             if search_query \<noteq> []
             then Some (s, [smart_search e search_query platform_detected])
             else Some (s, [''What would you like me to search for?'']))
      else if is_youtube query then
        (let search_query =
               strip (replace_del ''on'' (replace_del ''search'' (replace_del ''youtube'' query)))
         in if search_query \<noteq> []
            then Some (s, [smart_search e search_query ''youtube''])
            else Some (s, [''What would you like me to search on YouTube?'']))
      else if is_google query then
        (let search_query =
               strip (replace_del ''on'' (replace_del ''search'' (replace_del ''google'' query)))
         in if search_query \<noteq> []
            then Some (s, [smart_search e search_query ''google''])
            else Some (s, [''What would you like me to search on Google?'']))
      else if is_open query then
        (if contains ''notepad'' query then Some (s, open_application e ''notepad'')
         else if contains ''calculator'' query then Some (s, open_application e ''calc'')
         else if contains ''browser'' query \<or> contains ''chrome'' query
         then Some (s, open_application e ''browser'')
         else Some (s, [''Which application would you like me to open?'']))
      else if is_name query then
        Some (set_user_name e s query)
      else if is_help query then
        Some (s, [help_text e])
      else if is_exit query then
        Some (s\<lparr>is_listening := False\<rparr>,
              [''Goodbye '' @ user_name s @
               ''! It was great helping you today with Google Gemini AI from config!''])
      else Some (s, [conversation e s query]))"

subsection \<open>Reaching a branch\<close>

text \<open>An utterance reaches a branch of \<open>process_command\<close> when it is not empty and no
  condition before the branch holds. The predicates below collect the conditions that
  come before the greeting, weather, generic search, name and exit branches.\<close>

definition none_before_greeting :: "string \<Rightarrow> bool" where
  "none_before_greeting query =
     (query \<noteq> [] \<and> \<not> is_tell_me query \<and> \<not> is_model_load query \<and>
      \<not> is_config_status query \<and> \<not> is_text_mode query \<and> \<not> is_voice_mode query)"

definition none_before_weather :: "string \<Rightarrow> bool" where
  "none_before_weather query =
     (none_before_greeting query \<and> \<not> is_greeting query \<and> \<not> is_time query \<and>
      \<not> is_date query)"

definition none_before_search :: "string \<Rightarrow> bool" where
  "none_before_search query =
     (none_before_weather query \<and> \<not> is_weather query \<and> \<not> is_wikipedia query \<and>
      \<not> is_joke query \<and> \<not> is_system query \<and> \<not> is_screenshot query \<and>
      \<not> is_camera query)"

definition none_before_name :: "string \<Rightarrow> bool" where
  "none_before_name query =
     (none_before_search query \<and> \<not> is_search query \<and> \<not> is_youtube query \<and>
      \<not> is_google query \<and> \<not> is_open query)"

definition none_before_exit :: "string \<Rightarrow> bool" where
  "none_before_exit query =
     (none_before_name query \<and> \<not> is_name query \<and> \<not> is_help query)"

section \<open>Example environments and states\<close>

text \<open>An environment with the constants of \<open>config.py\<close>, in which every collaborator
  answers; the theorems below are run on it and on variations of it.\<close>

definition example_env :: env where
  "example_env =
     \<lparr>CONFIG_API_KEY = Some ''XXXXXXXXXXXXXXXXXXXXXX'',
      GEMINI_MODEL = ''gemini-1.5-flash'',
      DEFAULT_USER_NAME = ''Rudra'',
      DEFAULT_CITY = ''Mumbai'',
      getenv_GEMINI_API_KEY = None,
      genai_configure_raises = (\<lambda>k. None),
      GenerativeModel_raises = (\<lambda>m. None),
      generate_content = (\<lambda>p. Response (Some ''NOAH: I am fine. '')),
      random_draw = 1,
      strftime = (\<lambda>f. ''now''),
      requests_get = (\<lambda>u. Some (200, ''+31C '')),
      quote_plus = (\<lambda>q. q),
      webbrowser_open_ok = (\<lambda>u. True),
      wikipedia_summary = (\<lambda>t n. PageError),
      pyjokes_get_joke = None,
      psutil_percents = Some (''12.5'', ''40.1'', ''71.0''),
      sensors_battery = NoBattery,
      screenshot_raises = (\<lambda>p. None),
      platform_system = ''Linux'',
      Path_home = Some ''/home/user'',
      path_join = (\<lambda>a b. a @ ''/'' @ b),
      path_exists = (\<lambda>p. True),
      VideoCapture = Capture False,
      camera_frames = (\<lambda>n. ReadFailed),
      Popen_ok = (\<lambda>c. True),
      file_write_ok = (\<lambda>p. True)\<rparr>"

text \<open>The same environment with the placeholder key in \<open>config.py\<close>.\<close>

definition placeholder_env :: env where
  "placeholder_env = example_env\<lparr>CONFIG_API_KEY := Some ''YOUR_API_KEY_HERE''\<rparr>"

text \<open>Two environments in which the model call raises: with a message that names the quota
  only, and with one that names the quota and the key.\<close>

definition quota_env :: env where
  "quota_env =
     example_env\<lparr>generate_content :=
       (\<lambda>p. Raised ''429 Resource has been exhausted (e.g. check quota).'')\<rparr>"

definition quota_key_env :: env where
  "quota_key_env =
     example_env\<lparr>generate_content :=
       (\<lambda>p. Raised ''429 Quota exceeded for consumer api_key:XYZ'')\<rparr>"

text \<open>A chatbot after a successful \<open>load_gemini_api\<close>.\<close>

definition example_chatbot :: chatbot where
  "example_chatbot =
     \<lparr>model_type = Some ''gemini'', gemini_model = Some ''gemini-1.5-flash'',
      api_key = Some ''XXXXXXXXXXXXXXXXXXXXXX'', concise_mode = True\<rparr>"

text \<open>The assistant as \<open>__init__\<close> leaves it when there is a microphone and no profile
  file.\<close>

definition example_noah :: noah where
  "example_noah =
     \<lparr>text_mode = False, microphone = True, is_listening = True,
      user_name = ''Rudra'', user_data_name = ''Rudra'', noah_data_json = None,
      chatbot = chatbot_init, ai_model_loaded = False, files = []\<rparr>"

section \<open>Facts about strings\<close>

lemma startswith_take: "startswith s p = (take (length p) s = p)"
  by (induction s p rule: startswith.induct) auto

section \<open>The example environments, evaluated\<close>

lemma example_env_simps:
  "CONFIG_API_KEY example_env = Some ''XXXXXXXXXXXXXXXXXXXXXX''"
  "GEMINI_MODEL example_env = ''gemini-1.5-flash''"
  "DEFAULT_CITY example_env = ''Mumbai''"
  "getenv_GEMINI_API_KEY example_env = None"
  "genai_configure_raises example_env = (\<lambda>k. None)"
  "GenerativeModel_raises example_env = (\<lambda>m. None)"
  "random_draw example_env = 1"
  "requests_get example_env = (\<lambda>u. Some (200, ''+31C ''))"
  "file_write_ok example_env = (\<lambda>p. True)"
  "camera_frames example_env = (\<lambda>n. ReadFailed)"
  "pyjokes_get_joke example_env = None"
  by (simp_all add: example_env_def)

lemma upper_quota_key:
  "upper ''429 Quota exceeded for consumer api_key:XYZ'' =
     ''429 QUOTA EXCEEDED FOR CONSUMER API_KEY:XYZ''"
  by code_simp

lemma upper_quota:
  "upper ''429 Resource has been exhausted (e.g. check quota).'' =
     ''429 RESOURCE HAS BEEN EXHAUSTED (E.G. CHECK QUOTA).''"
  by code_simp

lemma call_quota_key:
  "call_generate_content quota_key_env example_chatbot p =
     Raised ''429 Quota exceeded for consumer api_key:XYZ''"
  by (simp add: call_generate_content_def quota_key_env_def example_chatbot_def)

lemma call_quota:
  "call_generate_content quota_env example_chatbot p =
     Raised ''429 Resource has been exhausted (e.g. check quota).''"
  by (simp add: call_generate_content_def quota_env_def example_chatbot_def)

lemma call_example:
  "call_generate_content example_env example_chatbot p = Response (Some ''NOAH: I am fine. '')"
  by (simp add: call_generate_content_def example_env_def example_chatbot_def)

lemma strip_example: "strip ''NOAH: I am fine. '' = ''NOAH: I am fine.''"
  by code_simp

lemma strip_example_label: "strip '' I am fine.'' = ''I am fine.''"
  by code_simp

section \<open>The chat backend adapter\<close>

subsection \<open>Loading the model\<close>

lemma load_gemini_api_False:
  "load_gemini_api e arg cb = (False, cb') \<Longrightarrow> cb' = cb\<lparr>api_key := resolve_api_key e arg\<rparr>"
  by (simp add: load_gemini_api_def Let_def split: option.splits if_splits)

lemma load_gemini_api_key:
  "api_key (snd (load_gemini_api e arg cb)) = resolve_api_key e arg"
  by (simp add: load_gemini_api_def Let_def split: option.splits)

lemma resolve_api_key_priority:
  "resolve_api_key e arg =
       (if truthy arg then arg
        else if truthy (getenv_GEMINI_API_KEY e) then getenv_GEMINI_API_KEY e
        else if truthy (CONFIG_API_KEY e) then CONFIG_API_KEY e
        else None)"
  by (simp add: resolve_api_key_def py_or_def)

text \<open>
  Claim C5. Whenever \<open>load_gemini_api\<close> returns \<open>False\<close>, \<open>model_type\<close> and
  \<open>gemini_model\<close> keep the values they had before the call, so \<open>is_model_loaded\<close> is
  what it was and stays false when it was false: no field of the loaded state is set
  without the other. The key that the call stores is the explicit argument when it is a
  non-empty string, else the environment variable when that is one, else the value of
  \<open>config.py\<close> when that is one, else \<open>None\<close>.
\<close>

theorem load_gemini_api_failure_keeps_loaded_state:
  "(load_gemini_api e arg cb = (False, cb') \<longrightarrow>
      model_type cb' = model_type cb \<and> gemini_model cb' = gemini_model cb \<and>
      is_model_loaded cb' = is_model_loaded cb \<and>
      (\<not> is_model_loaded cb \<longrightarrow> \<not> is_model_loaded cb'))
   \<and> api_key (snd (load_gemini_api e arg cb)) =
       (if truthy arg then arg
        else if truthy (getenv_GEMINI_API_KEY e) then getenv_GEMINI_API_KEY e
        else if truthy (CONFIG_API_KEY e) then CONFIG_API_KEY e
        else None)"
proof -
  have "model_type cb' = model_type cb \<and> gemini_model cb' = gemini_model cb \<and>
      is_model_loaded cb' = is_model_loaded cb \<and>
      (\<not> is_model_loaded cb \<longrightarrow> \<not> is_model_loaded cb')"
    if "load_gemini_api e arg cb = (False, cb')"
    using load_gemini_api_False [OF that] by (simp add: is_model_loaded_def)
  then show ?thesis
    by (simp only: load_gemini_api_key resolve_api_key_priority) simp
qed

text \<open>The theorem at the placeholder key of \<open>config.py\<close>, on a fresh chatbot: the call
  fails, the key is stored and nothing is loaded.\<close>

theorem load_gemini_api_failure_keeps_loaded_state_witness:
  "load_gemini_api placeholder_env None chatbot_init =
     (False, chatbot_init\<lparr>api_key := Some ''YOUR_API_KEY_HERE''\<rparr>)
   \<and> model_type (chatbot_init\<lparr>api_key := Some ''YOUR_API_KEY_HERE''\<rparr>) = model_type chatbot_init
   \<and> gemini_model (chatbot_init\<lparr>api_key := Some ''YOUR_API_KEY_HERE''\<rparr>) = gemini_model chatbot_init
   \<and> \<not> is_model_loaded chatbot_init
   \<and> \<not> is_model_loaded (chatbot_init\<lparr>api_key := Some ''YOUR_API_KEY_HERE''\<rparr>)
   \<and> api_key (snd (load_gemini_api placeholder_env None chatbot_init)) = Some ''YOUR_API_KEY_HERE''"
proof -
  have run: "load_gemini_api placeholder_env None chatbot_init =
     (False, chatbot_init\<lparr>api_key := Some ''YOUR_API_KEY_HERE''\<rparr>)"
    by (simp add: load_gemini_api_def resolve_api_key_def py_or_def placeholder_env_def
        example_env_simps)
  have unloaded: "\<not> is_model_loaded chatbot_init"
    by (simp add: is_model_loaded_def chatbot_init_def)
  from load_gemini_api_failure_keeps_loaded_state
         [of placeholder_env None chatbot_init "chatbot_init\<lparr>api_key := Some ''YOUR_API_KEY_HERE''\<rparr>"]
       run unloaded
  show ?thesis
    by (simp add: placeholder_env_def example_env_simps is_model_loaded_def chatbot_init_def)
qed

subsection \<open>The replies for exceptions\<close>

text \<open>
  Claim C6, as the claim states it, fails: an exception whose message contains both
  \<open>quota\<close> and \<open>api_key\<close> gets the reply for key errors, because the test for the key
  comes first.
\<close>

theorem quota_reply_counterexample:
  "call_generate_content quota_key_env example_chatbot (final_prompt example_chatbot ''hello'' None) =
     Raised ''429 Quota exceeded for consumer api_key:XYZ'' \<and>
   contains ''QUOTA'' (upper ''429 Quota exceeded for consumer api_key:XYZ'') \<and>
   generate_gemini_response quota_key_env example_chatbot ''hello'' None \<noteq>
     ''API quota exceeded. Please check your usage limits.''"
  by (simp add: generate_gemini_response_def call_quota_key error_reply_def upper_quota_key)

text \<open>
  Claim C6, amended. When the model call raises an exception whose message contains
  \<open>quota\<close> in any letter case, \<open>generate_gemini_response\<close> returns a fixed string and
  never the generic one: the string for key errors when the message also contains
  \<open>api_key\<close> or \<open>authentication\<close>, and the string for the quota otherwise.
\<close>

theorem quota_reply:
  "call_generate_content e cb (final_prompt cb message chat_history) = Raised m \<Longrightarrow>
   contains ''QUOTA'' (upper m) \<Longrightarrow>
   generate_gemini_response e cb message chat_history \<noteq>
     ''I encountered an error. Please try again in a moment.'' \<and>
   (if contains ''API_KEY'' (upper m) \<or> contains ''AUTHENTICATION'' (upper m)
    then generate_gemini_response e cb message chat_history =
           ''API key error. Please check your Gemini API key in config.py.''
    else generate_gemini_response e cb message chat_history =
           ''API quota exceeded. Please check your usage limits.'')"
  by (simp add: generate_gemini_response_def error_reply_def)

theorem quota_reply_witness:
  "generate_gemini_response quota_env example_chatbot ''hello'' None =
     ''API quota exceeded. Please check your usage limits.''"
proof -
  have b: "contains ''QUOTA'' (upper ''429 Resource has been exhausted (e.g. check quota).'')"
    by (simp add: upper_quota)
  have c: "\<not> (contains ''API_KEY'' (upper ''429 Resource has been exhausted (e.g. check quota).'') \<or>
               contains ''AUTHENTICATION'' (upper ''429 Resource has been exhausted (e.g. check quota).''))"
    by (simp add: upper_quota)
  from quota_reply [OF call_quota b] c show ?thesis by simp
qed

subsection \<open>Cleaning the response\<close>

lemma startswith_truncated:
  assumes "length t > 800"
  shows "startswith (take 800 t @ ''...'') ''NOAH:'' = startswith t ''NOAH:''"
  using assms by (simp add: startswith_take)

text \<open>
  Claim C7. For a non-empty text of the model, let \<open>t\<close> be the text with the whitespace
  at both ends removed. Without a leading \<open>NOAH:\<close> the result is \<open>t\<close> when \<open>t\<close> has at
  most 800 characters, and the first 800 characters of \<open>t\<close> followed by three dots
  otherwise. With a leading \<open>NOAH:\<close> the result is that same string without its first
  five characters and with the whitespace at both ends removed again.
\<close>

theorem generate_gemini_response_post_processing:
  assumes "text \<noteq> []"
    and "call_generate_content e cb (final_prompt cb message chat_history) = Response (Some text)"
  shows "(\<not> startswith (strip text) ''NOAH:'' \<and> length (strip text) \<le> 800 \<longrightarrow>
            generate_gemini_response e cb message chat_history = strip text) \<and>
         (\<not> startswith (strip text) ''NOAH:'' \<and> 800 < length (strip text) \<longrightarrow>
            generate_gemini_response e cb message chat_history = take 800 (strip text) @ ''...'') \<and>
         (startswith (strip text) ''NOAH:'' \<and> length (strip text) \<le> 800 \<longrightarrow>
            generate_gemini_response e cb message chat_history = strip (drop 5 (strip text))) \<and>
         (startswith (strip text) ''NOAH:'' \<and> 800 < length (strip text) \<longrightarrow>
            generate_gemini_response e cb message chat_history =
              strip (drop 5 (take 800 (strip text)) @ ''...''))"
proof (cases "800 < length (strip text)")
  case True
  then show ?thesis using assms
    by (simp add: generate_gemini_response_def clean_response_def Let_def startswith_truncated)
next
  case False
  then show ?thesis using assms
    by (simp add: generate_gemini_response_def clean_response_def Let_def)
qed

theorem generate_gemini_response_post_processing_witness:
  "generate_gemini_response example_env example_chatbot ''hello'' None = ''I am fine.''"
proof -
  have ne: "''NOAH: I am fine. '' \<noteq> []" by simp
  from generate_gemini_response_post_processing
         [where message = "''hello''" and chat_history = None, OF ne call_example]
  show ?thesis
    by (simp add: strip_example strip_example_label)
qed

section \<open>The command router\<close>

subsection \<open>The branches\<close>

lemma index_first: "x \<notin> set pre \<Longrightarrow> index (pre @ x # post) x = Some (length pre)"
  by (induction pre) auto

lemma index_None: "index xs x = None \<longleftrightarrow> x \<notin> set xs"
  by (induction xs) auto

lemma process_command_greeting:
  "none_before_greeting query \<Longrightarrow> is_greeting query \<Longrightarrow>
   process_command e s query = Some (s, [random_choice e (greetings s)])"
  by (simp add: process_command_def none_before_greeting_def)

lemma process_command_weather:
  "none_before_weather query \<Longrightarrow> is_weather query \<Longrightarrow>
   process_command e s query =
     Some (s, [''Weather in '' @ weather_city e query @ '': '' @
               get_free_weather e (weather_city e query)])"
  by (simp add: process_command_def none_before_weather_def none_before_greeting_def Let_def)

lemma process_command_search:
  "none_before_search query \<Longrightarrow> is_search query \<Longrightarrow>
   process_command e s query =
     (case search_arguments query of
        (search_query, platform_detected) \<Rightarrow>
          if search_query \<noteq> []
          then Some (s, [smart_search e search_query platform_detected])
          else Some (s, [''What would you like me to search for?'']))"
  by (simp add: process_command_def none_before_search_def none_before_weather_def
      none_before_greeting_def)

lemma process_command_name:
  "none_before_name query \<Longrightarrow> is_name query \<Longrightarrow>
   process_command e s query = Some (set_user_name e s query)"
  by (simp add: process_command_def none_before_name_def none_before_search_def
      none_before_weather_def none_before_greeting_def)

lemma process_command_exit:
  "none_before_exit query \<Longrightarrow> is_exit query \<Longrightarrow>
   process_command e s query =
     Some (s\<lparr>is_listening := False\<rparr>,
           [''Goodbye '' @ user_name s @
            ''! It was great helping you today with Google Gemini AI from config!''])"
  by (simp add: process_command_def none_before_exit_def none_before_name_def
      none_before_search_def none_before_weather_def none_before_greeting_def)

subsection \<open>The generic search branch\<close>

lemma reach_search_laptop: "none_before_search ''search laptop on amazon''"
  by code_simp

lemma is_search_laptop: "is_search ''search laptop on amazon''"
  by code_simp

lemma search_arguments_laptop:
  "search_arguments ''search laptop on amazon'' = (''laptop on'', ''amazon'')"
  by code_simp

text \<open>
  Claim C2. On \<open>search laptop on amazon\<close> the generic search branch detects the platform
  \<open>amazon\<close>, but the query it passes to \<open>smart_search\<close> is \<open>laptop on\<close>: the branch
  deletes \<open>search\<close> and the platform keywords and leaves the connector word in place.
\<close>

theorem search_laptop_on_amazon_keeps_connector:
  "search_arguments ''search laptop on amazon'' = (''laptop on'', ''amazon'') \<and>
   process_command e s ''search laptop on amazon'' =
     Some (s, [smart_search e ''laptop on'' ''amazon''])"
  using process_command_search [OF reach_search_laptop is_search_laptop, of e s]
  by (simp add: search_arguments_laptop)

subsection \<open>The name branch\<close>

lemma reach_name_only: "none_before_name ''my name is''"
  by code_simp

lemma is_name_only: "is_name ''my name is''"
  by code_simp

lemma split_name_only: "split ''my name is'' = [''my'', ''name'', ''is'']"
  by code_simp

lemma contains_name_only: "contains ''my name is'' ''my name is''"
  by code_simp

lemma reach_name_isabel: "none_before_name ''my name isabel''"
  by code_simp

lemma is_name_isabel: "is_name ''my name isabel''"
  by code_simp

lemma split_name_isabel: "split ''my name isabel'' = [''my'', ''name'', ''isabel'']"
  by code_simp

lemma contains_name_isabel: "contains ''my name is'' ''my name isabel''"
  by code_simp

text \<open>
  Claim C4. On \<open>my name is\<close>, where no token follows \<open>is\<close>, the name branch says nothing
  and changes nothing: the clarification that the branch gives when there is no token
  \<open>is\<close> at all (as on \<open>my name isabel\<close>) is not given when the name is empty.
\<close>

theorem empty_name_gets_no_reply:
  "process_command e s ''my name is'' = Some (s, []) \<and>
   process_command e s ''my name isabel'' =
     Some (s, [''I didn't catch your name. Please try again.''])"
proof -
  have "set_user_name e s ''my name is'' = (s, [])"
    by (simp add: set_user_name_def split_name_only contains_name_only)
  moreover have "set_user_name e s ''my name isabel'' =
      (s, [''I didn't catch your name. Please try again.''])"
    by (simp add: set_user_name_def split_name_isabel contains_name_isabel)
  ultimately show ?thesis
    using process_command_name [OF reach_name_only is_name_only, of e s]
      process_command_name [OF reach_name_isabel is_name_isabel, of e s]
    by simp
qed

subsection \<open>The greeting branch\<close>

lemma random_choice_greetings:
  "random_choice e (greetings s) =
     (if random_draw e mod 3 = 0 then ''Hello '' @ user_name s @ ''! How can I help you today?''
      else if random_draw e mod 3 = 1
      then ''Hi there! I'm NOAH, ready to assist you with intelligent responses.''
      else ''Greetings '' @ user_name s @ ''! What can I do for you today?'')"
proof -
  have "random_draw e mod 3 = 0 \<or> random_draw e mod 3 = 1 \<or> random_draw e mod 3 = 2"
    by arith
  then show ?thesis
    by (auto simp: random_choice_def greetings_def)
qed

lemma contains_hi_is_greeting: "contains ''hi'' query \<Longrightarrow> is_greeting query"
  by (simp add: is_greeting_def any_in_def)

lemma contains_nonempty: "contains (c # p) query \<Longrightarrow> query \<noteq> []"
  by auto

text \<open>
  Claim C10. An utterance that matches none of the rules before the greeting
  (information request, model load, status, the two mode switches) and contains \<open>hi\<close>
  anywhere gets the greeting drawn from the templates and nothing else, whatever later
  conditions (time, date, weather, search and so on) it also satisfies.
\<close>

theorem greeting_matches_substring:
  assumes "\<not> is_tell_me query" "\<not> is_model_load query" "\<not> is_config_status query"
    and "\<not> is_text_mode query" "\<not> is_voice_mode query"
    and "contains ''hi'' query"
  shows "process_command e s query = Some (s, [random_choice e (greetings s)])"
proof -
  have "query \<noteq> []"
    using assms(6) by (rule contains_nonempty)
  with assms have "none_before_greeting query"
    by (simp add: none_before_greeting_def)
  then show ?thesis
    using contains_hi_is_greeting [OF assms(6)] by (rule process_command_greeting)
qed

lemma this_time:
  "\<not> is_tell_me ''weather at this time''" "\<not> is_model_load ''weather at this time''"
  "\<not> is_config_status ''weather at this time''" "\<not> is_text_mode ''weather at this time''"
  "\<not> is_voice_mode ''weather at this time''" "contains ''hi'' ''weather at this time''"
  "is_time ''weather at this time''" "is_weather ''weather at this time''"
  by code_simp+

theorem greeting_matches_substring_witness:
  "is_time ''weather at this time'' \<and> is_weather ''weather at this time'' \<and>
   process_command example_env example_noah ''weather at this time'' =
     Some (example_noah, [''Hi there! I'm NOAH, ready to assist you with intelligent responses.''])"
  using greeting_matches_substring [OF this_time(1-6), of example_env example_noah]
  by (simp add: this_time random_choice_greetings example_env_simps)
subsection \<open>The weather branch\<close>

lemma weather_city_after_in:
  assumes "split query = pre @ ''in'' # post" and "''in'' \<notin> set pre" and "post \<noteq> []"
  shows "weather_city e query = join '' '' post"
  using assms by (simp add: weather_city_def Let_def index_first)

lemma weather_city_no_in:
  assumes "''in'' \<notin> set (split query)"
  shows "weather_city e query = DEFAULT_CITY e"
  using assms by (simp add: weather_city_def Let_def)

lemma weather_city_in_last:
  assumes "split query = pre @ [''in'']" and "''in'' \<notin> set pre"
  shows "weather_city e query = DEFAULT_CITY e"
  using assms by (simp add: weather_city_def Let_def index_first)

lemma reach_weather_tokyo: "none_before_weather ''weather in Tokyo''"
  by code_simp

lemma is_weather_tokyo: "is_weather ''weather in Tokyo''"
  by code_simp

lemma split_weather_tokyo: "split ''weather in Tokyo'' = [''weather''] @ ''in'' # [''Tokyo'']"
  by code_simp

lemma reach_weather_alone: "none_before_weather ''weather''"
  by code_simp

lemma is_weather_alone: "is_weather ''weather''"
  by code_simp

lemma split_weather_alone: "split ''weather'' = [''weather'']"
  by code_simp

text \<open>
  Claim C8. For an utterance that reaches the weather branch, the city that is looked up
  and named in the reply is: the tokens after the first token \<open>in\<close>, joined by spaces,
  when there is a token \<open>in\<close> and a token after its first occurrence; the default city
  of the configuration when there is no token \<open>in\<close> or its first occurrence is the last
  token. \<open>weather in Tokyo\<close> gives \<open>Tokyo\<close>, and \<open>weather\<close> gives the default city.
\<close>

theorem weather_city_extraction:
  "(none_before_weather query \<and> is_weather query \<longrightarrow>
      (\<exists>city. process_command e s query =
                Some (s, [''Weather in '' @ city @ '': '' @ get_free_weather e city]) \<and>
              (\<forall>pre post. split query = pre @ ''in'' # post \<and> ''in'' \<notin> set pre \<and> post \<noteq> []
                 \<longrightarrow> city = join '' '' post) \<and>
              (''in'' \<notin> set (split query) \<longrightarrow> city = DEFAULT_CITY e) \<and>
              (\<forall>pre. split query = pre @ [''in''] \<and> ''in'' \<notin> set pre
                 \<longrightarrow> city = DEFAULT_CITY e))) \<and>
   process_command e s ''weather in Tokyo'' =
     Some (s, [''Weather in Tokyo: '' @ get_free_weather e ''Tokyo'']) \<and>
   process_command e s ''weather'' =
     Some (s, [''Weather in '' @ DEFAULT_CITY e @ '': '' @ get_free_weather e (DEFAULT_CITY e)])"
proof (intro conjI impI)
  assume "none_before_weather query \<and> is_weather query"
  then have "process_command e s query =
      Some (s, [''Weather in '' @ weather_city e query @ '': '' @
                get_free_weather e (weather_city e query)])"
    by (simp add: process_command_weather)
  then show "\<exists>city. process_command e s query =
                Some (s, [''Weather in '' @ city @ '': '' @ get_free_weather e city]) \<and>
              (\<forall>pre post. split query = pre @ ''in'' # post \<and> ''in'' \<notin> set pre \<and> post \<noteq> []
                 \<longrightarrow> city = join '' '' post) \<and>
              (''in'' \<notin> set (split query) \<longrightarrow> city = DEFAULT_CITY e) \<and>
              (\<forall>pre. split query = pre @ [''in''] \<and> ''in'' \<notin> set pre
                 \<longrightarrow> city = DEFAULT_CITY e)"
    using weather_city_after_in [of query _ _ e] weather_city_no_in [of query e]
      weather_city_in_last [of query _ e]
    by (intro exI [of _ "weather_city e query"]) blast
next
  have "weather_city e ''weather in Tokyo'' = ''Tokyo''"
    using weather_city_after_in [OF split_weather_tokyo, of e] by simp
  then show "process_command e s ''weather in Tokyo'' =
     Some (s, [''Weather in Tokyo: '' @ get_free_weather e ''Tokyo''])"
    using process_command_weather [OF reach_weather_tokyo is_weather_tokyo, of e s] by simp
next
  have "weather_city e ''weather'' = DEFAULT_CITY e"
    by (rule weather_city_no_in) (simp add: split_weather_alone)
  then show "process_command e s ''weather'' =
     Some (s, [''Weather in '' @ DEFAULT_CITY e @ '': '' @ get_free_weather e (DEFAULT_CITY e)])"
    using process_command_weather [OF reach_weather_alone is_weather_alone, of e s] by simp
qed

lemma reach_weather_new_york: "none_before_weather ''weather in New York''"
  by code_simp

lemma is_weather_new_york: "is_weather ''weather in New York''"
  by code_simp

lemma split_weather_new_york:
  "split ''weather in New York'' = [''weather''] @ ''in'' # [''New'', ''York'']"
  by code_simp

lemma get_free_weather_example: "get_free_weather example_env city = ''+31C''"
proof -
  have "strip ''+31C '' = ''+31C''" by code_simp
  then show ?thesis by (simp add: get_free_weather_def example_env_simps)
qed

theorem weather_city_extraction_witness:
  "process_command example_env example_noah ''weather in New York'' =
     Some (example_noah, [''Weather in New York: +31C''])"
proof -
  from weather_city_extraction [of "''weather in New York''" example_env example_noah]
    reach_weather_new_york is_weather_new_york
  obtain city where run: "process_command example_env example_noah ''weather in New York'' =
      Some (example_noah, [''Weather in '' @ city @ '': '' @ get_free_weather example_env city])"
    and city: "\<forall>pre post. split ''weather in New York'' = pre @ ''in'' # post \<and>
                 ''in'' \<notin> set pre \<and> post \<noteq> [] \<longrightarrow> city = join '' '' post"
    by blast
  from city split_weather_new_york have "city = join '' '' [''New'', ''York'']"
    by (metis empty_iff empty_set list.distinct(1) list.inject set_ConsD)
  then have "city = ''New York''" by simp
  with run show ?thesis by (simp add: get_free_weather_example)
qed

subsection \<open>The greeting after a name was given\<close>

lemma reach_name_alex: "none_before_name ''my name is Alex''"
  by code_simp

lemma is_name_alex: "is_name ''my name is Alex''"
  by code_simp

lemma split_name_alex: "split ''my name is Alex'' = [''my'', ''name'', ''is'', ''Alex'']"
  by code_simp

lemma contains_name_alex: "contains ''my name is'' ''my name is Alex''"
  by code_simp

lemma title_alex: "title ''Alex'' = ''Alex''"
  by code_simp

lemma save_user_data_user_name: "user_name (save_user_data e s) = user_name s"
  by (simp add: save_user_data_def)

lemma my_name_is_alex:
  "process_command e s ''my name is Alex'' =
     Some (save_user_data e (s\<lparr>user_name := ''Alex'', user_data_name := ''Alex''\<rparr>),
           [''Nice to meet you, Alex!''])"
proof -
  have "set_user_name e s ''my name is Alex'' =
     (save_user_data e (s\<lparr>user_name := ''Alex'', user_data_name := ''Alex''\<rparr>),
      [''Nice to meet you, Alex!''])"
    by (simp add: set_user_name_def split_name_alex contains_name_alex title_alex Let_def
        save_user_data_user_name)
  then show ?thesis
    using process_command_name [OF reach_name_alex is_name_alex, of e s] by simp
qed

lemma reach_hello: "none_before_greeting ''hello''"
  by code_simp

lemma is_greeting_hello: "is_greeting ''hello''"
  by code_simp

lemma no_alex_in_second_greeting:
  "\<not> contains ''Alex'' ''Hi there! I'm NOAH, ready to assist you with intelligent responses.''"
  by code_simp

text \<open>
  Claim C3, as the claim states it, fails: the second of the three greeting templates
  does not mention the name, so with that draw the greeting after \<open>my name is Alex\<close>
  does not contain \<open>Alex\<close>.
\<close>

theorem greeting_after_name_counterexample:
  "process_command example_env example_noah ''my name is Alex'' =
     Some (example_noah\<lparr>user_name := ''Alex'', user_data_name := ''Alex'',
                        noah_data_json := Some ''Alex''\<rparr>,
           [''Nice to meet you, Alex!'']) \<and>
   none_before_greeting ''hello'' \<and> is_greeting ''hello'' \<and>
   process_command example_env
       (example_noah\<lparr>user_name := ''Alex'', user_data_name := ''Alex'',
                      noah_data_json := Some ''Alex''\<rparr>) ''hello'' =
     Some (example_noah\<lparr>user_name := ''Alex'', user_data_name := ''Alex'',
                        noah_data_json := Some ''Alex''\<rparr>,
           [''Hi there! I'm NOAH, ready to assist you with intelligent responses.'']) \<and>
   \<not> contains ''Alex'' ''Hi there! I'm NOAH, ready to assist you with intelligent responses.''"
  by (simp add: my_name_is_alex save_user_data_def example_env_simps reach_hello
      is_greeting_hello process_command_greeting random_choice_greetings
      no_alex_in_second_greeting)

text \<open>
  Claim C3, amended. After \<open>my name is Alex\<close> the profile name is \<open>Alex\<close>, and as long
  as it is, every utterance that reaches the greeting branch gets one of the three
  templates: the first and the third contain \<open>Alex\<close>, the second is a fixed text
  without the name.
\<close>

theorem greeting_after_name:
  assumes "process_command e s ''my name is Alex'' = Some (s1, says1)"
    and "user_name s2 = user_name s1"
    and "none_before_greeting query" and "is_greeting query"
  shows "user_name s1 = ''Alex'' \<and>
         process_command e' s2 query =
           Some (s2, [if random_draw e' mod 3 = 0 then ''Hello Alex! How can I help you today?''
                      else if random_draw e' mod 3 = 1
                      then ''Hi there! I'm NOAH, ready to assist you with intelligent responses.''
                      else ''Greetings Alex! What can I do for you today?''])"
proof -
  from assms(1) have "user_name s1 = ''Alex''"
    by (auto simp: my_name_is_alex save_user_data_user_name)
  with assms(2) have "user_name s2 = ''Alex''" by simp
  then show ?thesis
    using process_command_greeting [OF assms(3,4), of e' s2] \<open>user_name s1 = ''Alex''\<close>
    by (simp add: random_choice_greetings)
qed

theorem greeting_after_name_witness:
  "process_command (example_env\<lparr>random_draw := 3\<rparr>)
       (example_noah\<lparr>user_name := ''Alex'', user_data_name := ''Alex'',
                      noah_data_json := Some ''Alex''\<rparr>) ''hello'' =
     Some (example_noah\<lparr>user_name := ''Alex'', user_data_name := ''Alex'',
                        noah_data_json := Some ''Alex''\<rparr>,
           [''Hello Alex! How can I help you today?''])"
proof -
  have run: "process_command example_env example_noah ''my name is Alex'' =
     Some (example_noah\<lparr>user_name := ''Alex'', user_data_name := ''Alex'',
                        noah_data_json := Some ''Alex''\<rparr>,
           [''Nice to meet you, Alex!''])"
    by (simp add: my_name_is_alex save_user_data_def example_env_simps)
  from greeting_after_name [OF run refl reach_hello is_greeting_hello,
      of "example_env\<lparr>random_draw := 3\<rparr>"]
  show ?thesis by simp
qed
subsection \<open>What the handlers leave unchanged\<close>

lemma save_user_data_is_listening: "is_listening (save_user_data e s) = is_listening s"
  by (simp add: save_user_data_def)

lemma set_user_name_is_listening:
  "set_user_name e s query = (s', says) \<Longrightarrow> is_listening s' = is_listening s"
  by (auto simp: set_user_name_def Let_def save_user_data_is_listening
      split: option.splits if_splits)

lemma initialize_ai_model_is_listening:
  "initialize_ai_model e s = (loaded, s', says) \<Longrightarrow> is_listening s' = is_listening s"
  by (auto simp: initialize_ai_model_def split: prod.splits if_splits)

lemma save_and_open_notepad_is_listening:
  "save_and_open_notepad e s topic content = (filename, s') \<Longrightarrow>
   is_listening s' = is_listening s"
  by (auto simp: save_and_open_notepad_def Let_def split: if_splits)

lemma generate_information_is_listening:
  "generate_information e s topic = (reply, s', says) \<Longrightarrow> is_listening s' = is_listening s"
  by (auto simp: generate_information_def Let_def split: prod.splits
      dest: save_and_open_notepad_is_listening)

lemma handle_tell_me_about_is_listening:
  "handle_tell_me_about e s query = (reply, s', says) \<Longrightarrow> is_listening s' = is_listening s"
  by (auto simp: handle_tell_me_about_def
      split: option.splits if_splits prod.splits wiki_outcome.splits
      dest: save_and_open_notepad_is_listening generate_information_is_listening
        initialize_ai_model_is_listening)

lemma process_command_is_listening:
  assumes "process_command e s query = Some (s', says)"
    and "\<not> (none_before_exit query \<and> is_exit query)"
  shows "is_listening s' = is_listening s"
  using assms
  by (auto simp: process_command_def Let_def none_before_exit_def none_before_name_def
      none_before_search_def none_before_weather_def none_before_greeting_def
      split: if_splits prod.splits option.splits
      dest: handle_tell_me_about_is_listening initialize_ai_model_is_listening
        set_user_name_is_listening)
subsection \<open>Tokens and joins\<close>

lemma index_Some:
  "index xs x = Some i \<Longrightarrow> i < length xs \<and> xs ! i = x \<and> x \<notin> set (take i xs)"
proof (induction xs arbitrary: i)
  case Nil
  then show ?case by simp
next
  case (Cons y ys)
  show ?case
  proof (cases "y = x")
    case True
    with Cons.prems show ?thesis by simp
  next
    case False
    with Cons.prems obtain j where j: "index ys x = Some j" "i = Suc j"
      by auto
    with Cons.IH [OF j(1)] False show ?thesis by simp
  qed
qed

lemma split_acc_nonempty: "w \<in> set (split_acc cur cs) \<Longrightarrow> w \<noteq> []"
  by (induction cs arbitrary: cur) (auto split: if_splits)

lemma split_nonempty: "w \<in> set (split s) \<Longrightarrow> w \<noteq> []"
  unfolding split_def by (rule split_acc_nonempty)

lemma join_Cons_nonempty: "x \<noteq> [] \<Longrightarrow> join sep (x # xs) \<noteq> []"
  by (cases xs) simp_all

lemma join_eq_Nil:
  assumes "\<And>w. w \<in> set ws \<Longrightarrow> w \<noteq> []" and "join sep ws = []"
  shows "ws = []"
proof (cases ws)
  case Nil
  then show ?thesis .
next
  case (Cons x xs)
  with assms(1) have "x \<noteq> []" by simp
  then have "join sep (x # xs) \<noteq> []" by (rule join_Cons_nonempty)
  with assms(2) Cons show ?thesis by simp
qed

lemma random_choice_in: "xs \<noteq> [] \<Longrightarrow> random_choice e xs \<in> set xs"
  by (simp add: random_choice_def)

subsection \<open>The camera loop\<close>

lemma camera_loop_ends:
  "frames (k + n) \<noteq> Shown False \<Longrightarrow> camera_loop frames k \<noteq> None"
proof (induction n arbitrary: k)
  case 0
  then show ?case
    by (subst camera_loop.simps) (auto split: frame.splits)
next
  case (Suc n)
  show ?case
  proof (cases "frames k = Shown False")
    case True
    from Suc.prems have "frames (Suc k + n) \<noteq> Shown False" by simp
    then have "camera_loop frames (Suc k) \<noteq> None" by (rule Suc.IH)
    with True show ?thesis
      by (subst camera_loop.simps) simp
  next
    case False
    then show ?thesis
      by (subst camera_loop.simps) (auto split: frame.splits)
  qed
qed

lemma open_camera_returns:
  assumes "\<exists>n. camera_frames e n \<noteq> Shown False"
  shows "open_camera e \<noteq> None"
proof -
  from assms obtain n where "camera_frames e (0 + n) \<noteq> Shown False" by auto
  then have "camera_loop (camera_frames e) 0 \<noteq> None" by (rule camera_loop_ends)
  then show ?thesis
    by (auto simp: open_camera_def split: capture_outcome.splits option.splits)
qed

subsection \<open>The replies of the handlers are not empty\<close>

lemma error_reply_nonempty: "error_reply m \<noteq> []"
  by (simp add: error_reply_def Let_def)

lemma generate_gemini_response_nonempty:
  assumes "\<forall>p t. generate_content e p = Response (Some t) \<longrightarrow> clean_response t \<noteq> []"
    and "gemini_model cb \<noteq> None"
  shows "generate_gemini_response e cb message chat_history \<noteq> []"
  using assms
  by (auto simp: generate_gemini_response_def call_generate_content_def error_reply_nonempty
      split: gen_outcome.splits option.splits)

lemma get_response_nonempty:
  assumes "\<forall>p t. generate_content e p = Response (Some t) \<longrightarrow> clean_response t \<noteq> []"
  shows "get_response e cb message chat_history \<noteq> []"
  using generate_gemini_response_nonempty [OF assms]
  by (simp add: get_response_def)

lemma conversation_nonempty:
  assumes "\<forall>p t. generate_content e p = Response (Some t) \<longrightarrow> clean_response t \<noteq> []"
  shows "conversation e s query \<noteq> []"
proof (cases "ai_model_loaded s")
  case True
  then show ?thesis
    using get_response_nonempty [OF assms, of "chatbot s" query None]
    by (simp add: conversation_def Let_def)
next
  case False
  have "random_choice e suggestions \<in> set suggestions"
    by (rule random_choice_in) (simp add: suggestions_def)
  then have "random_choice e suggestions \<noteq> []"
    by (auto simp: suggestions_def)
  with False show ?thesis by (simp add: conversation_def)
qed

lemma greeting_nonempty: "random_choice e (greetings s) \<noteq> []"
proof -
  have "random_choice e (greetings s) \<in> set (greetings s)"
    by (rule random_choice_in) (simp add: greetings_def)
  then show ?thesis by (auto simp: greetings_def)
qed

lemma tell_joke_nonempty:
  assumes "pyjokes_get_joke e \<noteq> Some []"
  shows "tell_joke e \<noteq> []"
proof (cases "pyjokes_get_joke e")
  case None
  have "random_choice e jokes \<in> set jokes"
    by (rule random_choice_in) (simp add: jokes_def)
  then have "random_choice e jokes \<noteq> []"
    by (auto simp: jokes_def)
  with None show ?thesis by (simp add: tell_joke_def)
next
  case (Some joke)
  with assms show ?thesis by (simp add: tell_joke_def)
qed

lemma search_wikipedia_nonempty:
  assumes "\<forall>t n. wikipedia_summary e t n \<noteq> Summary []"
  shows "search_wikipedia e query \<noteq> []"
  using assms [rule_format, of query 3]
  by (auto simp: search_wikipedia_def split: wiki_outcome.splits)

lemma smart_search_nonempty: "smart_search e query platform \<noteq> []"
  by (simp add: smart_search_def)

lemma get_system_info_nonempty: "get_system_info e \<noteq> []"
  by (simp add: get_system_info_def Let_def split: option.splits prod.splits battery_outcome.splits)

lemma take_screenshot_nonempty: "take_screenshot e \<noteq> []"
  by (simp add: take_screenshot_def Let_def split: option.splits)

lemma open_camera_nonempty: "open_camera e = Some result \<Longrightarrow> result \<noteq> []"
  by (auto simp: open_camera_def split: capture_outcome.splits option.splits if_splits)

lemma open_application_nonempty:
  "open_application e app_name \<noteq> []"
  "[] \<notin> set (open_application e app_name)"
  by (simp_all add: open_application_def split: option.splits)

lemma help_text_nonempty: "help_text e \<noteq> []"
  by (simp add: help_text_def)

lemma initialize_ai_model_says:
  "snd (snd (initialize_ai_model e s)) \<noteq> []"
  "[] \<notin> set (snd (snd (initialize_ai_model e s)))"
  by (simp_all add: initialize_ai_model_def case_prod_beta)

lemma generate_information_says:
  "fst (generate_information e s topic) \<noteq> []"
  "[] \<notin> set (snd (snd (generate_information e s topic)))"
  by (simp_all add: generate_information_def Let_def case_prod_beta)

lemma handle_tell_me_about_says:
  "fst (handle_tell_me_about e s query) \<noteq> []"
  "[] \<notin> set (snd (snd (handle_tell_me_about e s query)))"
  by (simp_all add: handle_tell_me_about_def case_prod_beta initialize_ai_model_says
      generate_information_says split: option.splits wiki_outcome.splits)

lemma set_user_name_says: "[] \<notin> set (snd (set_user_name e s query))"
  by (simp add: set_user_name_def Let_def split: option.splits)

lemma set_user_name_silent:
  assumes "set_user_name e s query = (s', [])"
  shows "\<exists>pre. split query = pre @ [if contains ''my name is'' query then ''is'' else ''me''] \<and>
               (if contains ''my name is'' query then ''is'' else ''me'') \<notin> set pre"
proof -
  define kw where "kw = (if contains ''my name is'' query then ''is'' else ''me'')"
  have kw: "index (split query) kw =
      (if contains ''my name is'' query then index (split query) ''is''
       else index (split query) ''me'')"
    by (simp add: kw_def)
  from assms obtain i where i: "index (split query) kw = Some i"
    and empty: "join '' '' (drop (i + 1) (split query)) = []"
    unfolding kw by (auto simp: set_user_name_def Let_def split: option.splits if_splits)
  have "drop (i + 1) (split query) = []"
    by (rule join_eq_Nil [OF _ empty]) (auto dest: in_set_dropD split_nonempty)
  then have len: "length (split query) \<le> i + 1" by simp
  from index_Some [OF i] have lt: "i < length (split query)" and at: "split query ! i = kw"
    and before: "kw \<notin> set (take i (split query))"
    by simp_all
  from len lt have eq: "length (split query) = Suc i" by simp
  have "take (Suc i) (split query) = take i (split query) @ [split query ! i]"
    using lt by (rule take_Suc_conv_app_nth)
  moreover have "take (Suc i) (split query) = split query"
    using eq by simp
  ultimately have "split query = take i (split query) @ [kw]"
    using at by simp
  with before have "\<exists>pre. split query = pre @ [kw] \<and> kw \<notin> set pre"
    by blast
  then show ?thesis
    unfolding kw_def .
qed
end
